theory Spec2Isabelle
  imports Complex_Main "HOL-Library.Log_Nat"
begin

section \<open>Python values used by the detectors\<close>

text \<open>
  The repository is Python. Its integers are unbounded (\<open>int\<close>) and every \<open>raise\<close>
  is a value of \<open>py_exn\<close>: the class of the exception and the text \<open>str(e)\<close> gives.
  A float is the real number it denotes; the arithmetic of the detectors rounds as
  the machine does (section on floats below), while the clock readings and the two
  rates of the loop are taken as exact reals.
  All the classes below derive from Python's \<open>Exception\<close>, which is what the handlers
  \<open>except Exception as e\<close> of the source catch.
\<close>

datatype exn_kind =
  ZeroDivisionError | OverflowError | ValueError | IndexError | FileNotFoundError |
  ImportError | TclError | PlainException

datatype py_exn = PyExn (kind: exn_kind) (msg: string)

text \<open>\<open>int(r)\<close> on a float: truncation toward zero.\<close>

definition py_int :: "real \<Rightarrow> int" where
  "py_int r = (if 0 \<le> r then \<lfloor>r\<rfloor> else \<lceil>r\<rceil>)"

subsection \<open>Floats\<close>

text \<open>
  A Python float is an IEEE 754 double: a sign, 53 binary digits and an exponent.
  \<open>round_double x\<close> is the double nearest to the real \<open>x\<close>, ties going to the even
  digit, with the smallest exponent \<open>-1074\<close> (gradual underflow); it is \<open>None\<close> when
  the result is beyond the largest double, where the machine gives an infinity.
  \<open>ilog2 a\<close> is the exponent \<open>e\<close> with \<open>2 ^ e <= a < 2 ^ (e + 1)\<close> of a positive \<open>a\<close>,
  \<open>rne\<close> rounds a non-negative real to the nearest integer, ties to even, and
  \<open>double_limit\<close> is \<open>2 ^ 1024\<close>, the first power of two beyond the doubles.
\<close>

definition pow2 :: "int \<Rightarrow> real" where
  "pow2 e = (if 0 \<le> e then 2 ^ nat e else 1 / 2 ^ nat (- e))"

definition ilog2 :: "real \<Rightarrow> int" where
  "ilog2 a =
     (if 1 \<le> a then bitlen \<lfloor>a\<rfloor> - 1
      else (let k = bitlen \<lfloor>1 / a\<rfloor> in if a * 2 ^ nat (k - 1) = 1 then 1 - k else - k))"

definition rne :: "real \<Rightarrow> int" where
  "rne a =
     (let f = \<lfloor>a\<rfloor>; r = a - of_int f
      in if r < 1 / 2 then f else if 1 / 2 < r then f + 1 else if even f then f else f + 1)"

definition double_limit :: real where
  "double_limit = (2 ^ 32) ^ 32"

definition round_double :: "real \<Rightarrow> real option" where
  "round_double x =
     (if x = 0 then Some 0
      else
        (let a = \<bar>x\<bar>;
             e = max (ilog2 a - 52) (- 1074);
             y = of_int (rne (a / pow2 e)) * pow2 e
         in if double_limit \<le> y then None else Some (sgn x * y)))"

text \<open>
  The three float expressions of \<open>detect_faces_optimized\<close>.
  \<open>max_width / width\<close> is the true division of two integers: the correctly rounded
  quotient, \<open>ZeroDivisionError\<close> on a zero divisor, \<open>OverflowError\<close> beyond the
  doubles. \<open>int(height * scale)\<close> and \<open>int(x1 / scale)\<close> first convert the integer to
  a float (\<open>OverflowError\<close> when it is too large), then multiply or divide
  (\<open>ZeroDivisionError\<close> on a zero scale; an overflow gives an infinity, on which
  \<open>int\<close> raises \<open>OverflowError\<close>), then truncate.
\<close>

definition int_true_div :: "int \<Rightarrow> int \<Rightarrow> py_exn + real" where
  "int_true_div a b =
     (if b = 0 then Inl (PyExn ZeroDivisionError ''division by zero'')
      else
        (case round_double (of_int a / of_int b) of
           None \<Rightarrow> Inl (PyExn OverflowError ''integer division result too large for a float'')
         | Some r \<Rightarrow> Inr r))"

definition int_of_product :: "int \<Rightarrow> real \<Rightarrow> py_exn + int" where
  "int_of_product n scale =
     (case round_double (of_int n) of
        None \<Rightarrow> Inl (PyExn OverflowError ''int too large to convert to float'')
      | Some x \<Rightarrow>
          (case round_double (x * scale) of
             None \<Rightarrow> Inl (PyExn OverflowError ''cannot convert float infinity to integer'')
           | Some p \<Rightarrow> Inr (py_int p)))"

definition int_of_quotient :: "int \<Rightarrow> real \<Rightarrow> py_exn + int" where
  "int_of_quotient n scale =
     (case round_double (of_int n) of
        None \<Rightarrow> Inl (PyExn OverflowError ''int too large to convert to float'')
      | Some x \<Rightarrow>
          if scale = 0 then Inl (PyExn ZeroDivisionError ''float division by zero'')
          else
            (case round_double (x / scale) of
               None \<Rightarrow> Inl (PyExn OverflowError ''cannot convert float infinity to integer'')
             | Some q \<Rightarrow> Inr (py_int q)))"

text \<open>
  A frame is a numpy array: \<open>image.shape[:2]\<close> is \<open>(height, width)\<close>, both
  non-negative, and the pixel data. (The Python parameter \<open>image\<close> is written
  \<open>img\<close> below: \<open>image\<close> is a constant of HOL.)
\<close>

record image =
  height :: nat
  width :: nat
  pixels :: "nat list"

text \<open>
  One entry of \<open>result.boxes\<close> as the loop body reads it: the four \<open>xyxy\<close> floats and
  the confidence, or a box whose conversion raises (\<open>int\<close> of a NaN, a tensor of the
  wrong shape), carrying the exception.
\<close>

datatype raw_box = Box real real real real real | Malformed py_exn

text \<open>The dictionary appended to \<open>detections\<close>, one field per key.\<close>

record detection =
  x1 :: int
  y1 :: int
  x2 :: int
  y2 :: int
  confidence :: real
  w :: int
  h :: int
  cx :: int
  cy :: int

text \<open>
  The external collaborators. \<open>yolo\<close> is \<open>self.yolo(image, conf=..., verbose=False)\<close>:
  it returns the boxes of each result or raises. The \<open>cv2\<close> functions and the
  formatting of \<open>f"{conf:.1%}"\<close> are taken as parameters; the drawing functions are
  given as the new content of the array they draw on, and \<open>getTextSize\<close> as the
  pair \<open>text_size[0]\<close> of the text's width and height.
\<close>

record detector =
  yolo :: "image \<Rightarrow> real \<Rightarrow> py_exn + raw_box list list"

type_synonym point = "int \<times> int"
type_synonym color = "nat \<times> nat \<times> nat"

record cv2_api =
  resize :: "image \<Rightarrow> int \<times> int \<Rightarrow> py_exn + image"
  rectangle :: "image \<Rightarrow> point \<Rightarrow> point \<Rightarrow> color \<Rightarrow> int \<Rightarrow> image"
  putText :: "image \<Rightarrow> string \<Rightarrow> point \<Rightarrow> real \<Rightarrow> color \<Rightarrow> int \<Rightarrow> image"
  getTextSize :: "string \<Rightarrow> real \<Rightarrow> int \<Rightarrow> int \<times> int"
  format_percent :: "real \<Rightarrow> string"

section \<open>YOLOv12FaceDetector and YOLOv8FaceDetector\<close>

text \<open>
  \<open>detect_faces\<close>, \<open>detect_faces_optimized\<close> and \<open>draw_faces\<close> are the same code in
  \<open>face_detection_yolov12.py\<close> and \<open>face_detection_yolov8.py\<close> (the latter writes the
  four rescaling assignments one per line); one model serves both.
\<close>

definition make_detection :: "int \<Rightarrow> int \<Rightarrow> int \<Rightarrow> int \<Rightarrow> real \<Rightarrow> detection" where
  "make_detection a b c d conf =
     \<lparr>x1 = a, y1 = b, x2 = c, y2 = d, confidence = conf,
      w = c - a, h = d - b, cx = (a + c) div 2, cy = (b + d) div 2\<rparr>"

text \<open>What \<open>print(f"Detection error: {e}")\<close> writes.\<close>

definition detection_error :: "py_exn \<Rightarrow> string" where
  "detection_error e = ''Detection error: '' @ msg e"

text \<open>
  The loops \<open>for result in results: for box in result.boxes:\<close> of \<open>detect_faces\<close>.
  An exception leaves the loops at once; what was appended before stays in
  \<open>detections\<close>, which the function returns after the handler.
\<close>

fun boxes_loop :: "raw_box list \<Rightarrow> detection list \<Rightarrow> detection list \<times> py_exn option" where
  "boxes_loop [] detections = (detections, None)"
| "boxes_loop (Malformed e # bs) detections = (detections, Some e)"
| "boxes_loop (Box a b c d conf # bs) detections =
     boxes_loop bs
       (detections @ [make_detection (py_int a) (py_int b) (py_int c) (py_int d) conf])"

fun results_loop :: "raw_box list list \<Rightarrow> detection list \<Rightarrow> detection list \<times> py_exn option" where
  "results_loop [] detections = (detections, None)"
| "results_loop (r # rs) detections =
     (case boxes_loop r detections of
        (detections', Some e) \<Rightarrow> (detections', Some e)
      | (detections', None) \<Rightarrow> results_loop rs detections')"

text \<open>The function returns the detections and the lines it printed.\<close>

definition detect_faces :: "detector \<Rightarrow> image \<Rightarrow> real \<Rightarrow> detection list \<times> string list" where
  "detect_faces self img conf_threshold =
     (case yolo self img conf_threshold of
        Inl e \<Rightarrow> ([], [detection_error e])
      | Inr results \<Rightarrow>
          (case results_loop results [] of
             (detections, Some e) \<Rightarrow> (detections, [detection_error e])
           | (detections, None) \<Rightarrow> (detections, [])))"

text \<open>
  The loops of \<open>detect_faces_optimized\<close>: after \<open>map(int, ...)\<close>, a scale below 1
  divides each coordinate, \<open>int(x1 / scale)\<close> and so on in the order of the tuple;
  the first of the four that raises leaves the loops.
\<close>

fun boxes_loop_optimized ::
  "real \<Rightarrow> raw_box list \<Rightarrow> detection list \<Rightarrow> detection list \<times> py_exn option" where
  "boxes_loop_optimized scale [] detections = (detections, None)"
| "boxes_loop_optimized scale (Malformed e # bs) detections = (detections, Some e)"
| "boxes_loop_optimized scale (Box a b c d conf # bs) detections =
     (if scale < 1 then
        (case int_of_quotient (py_int a) scale of
           Inl e \<Rightarrow> (detections, Some e)
         | Inr a' \<Rightarrow>
             (case int_of_quotient (py_int b) scale of
                Inl e \<Rightarrow> (detections, Some e)
              | Inr b' \<Rightarrow>
                  (case int_of_quotient (py_int c) scale of
                     Inl e \<Rightarrow> (detections, Some e)
                   | Inr c' \<Rightarrow>
                       (case int_of_quotient (py_int d) scale of
                          Inl e \<Rightarrow> (detections, Some e)
                        | Inr d' \<Rightarrow>
                            boxes_loop_optimized scale bs
                              (detections @ [make_detection a' b' c' d' conf])))))
      else boxes_loop_optimized scale bs
        (detections @ [make_detection (py_int a) (py_int b) (py_int c) (py_int d) conf]))"

fun results_loop_optimized ::
  "real \<Rightarrow> raw_box list list \<Rightarrow> detection list \<Rightarrow> detection list \<times> py_exn option" where
  "results_loop_optimized scale [] detections = (detections, None)"
| "results_loop_optimized scale (r # rs) detections =
     (case boxes_loop_optimized scale r detections of
        (detections', Some e) \<Rightarrow> (detections', Some e)
      | (detections', None) \<Rightarrow> results_loop_optimized scale rs detections')"

text \<open>
  The first statements of the \<open>try\<close> block: the scale and the image given to the
  detector.
\<close>

definition inference_input :: "cv2_api \<Rightarrow> image \<Rightarrow> int \<Rightarrow> py_exn + (real \<times> image)" where
  "inference_input cv img max_width =
     (if int (width img) > max_width then
        (case int_true_div max_width (int (width img)) of
           Inl e \<Rightarrow> Inl e
         | Inr scale \<Rightarrow>
             (case int_of_product (int (height img)) scale of
                Inl e \<Rightarrow> Inl e
              | Inr new_height \<Rightarrow>
                  (case resize cv img (max_width, new_height) of
                     Inl e \<Rightarrow> Inl e
                   | Inr inference_image \<Rightarrow> Inr (scale, inference_image))))
      else Inr (1, img))"

definition detect_faces_optimized ::
  "detector \<Rightarrow> cv2_api \<Rightarrow> image \<Rightarrow> real \<Rightarrow> int \<Rightarrow> detection list \<times> string list" where
  "detect_faces_optimized self cv img conf_threshold max_width =
     (case inference_input cv img max_width of
        Inl e \<Rightarrow> ([], [detection_error e])
      | Inr (scale, inference_image) \<Rightarrow>
          (case yolo self inference_image conf_threshold of
             Inl e \<Rightarrow> ([], [detection_error e])
           | Inr results \<Rightarrow>
               (case results_loop_optimized scale results [] of
                  (detections, Some e) \<Rightarrow> (detections, [detection_error e])
                | (detections, None) \<Rightarrow> (detections, []))))"

subsection \<open>draw_faces\<close>

text \<open>
  \<open>draw_faces\<close> works on arrays by reference: \<open>image.copy()\<close> allocates a new array
  and the \<open>cv2\<close> drawing calls write into the array they are given. The store lists
  the arrays allocated so far; a reference is an index into it, and a new array is
  appended.
\<close>

type_synonym store = "image list"

definition ndarray_copy :: "store \<Rightarrow> nat \<Rightarrow> store \<times> nat" where
  "ndarray_copy st r = (st @ [st ! r], length st)"

definition draw_on :: "store \<Rightarrow> nat \<Rightarrow> (image \<Rightarrow> image) \<Rightarrow> store" where
  "draw_on st r f = st[r := f (st ! r)]"

fun draw_loop ::
  "cv2_api \<Rightarrow> detection list \<Rightarrow> color \<Rightarrow> int \<Rightarrow> bool \<Rightarrow> nat \<Rightarrow> store \<Rightarrow> store" where
  "draw_loop cv [] color thickness show_confidence result st = st"
| "draw_loop cv (det # dets) color thickness show_confidence result st =
     (let st1 = draw_on st result
            (\<lambda>a. rectangle cv a (x1 det, y1 det) (x2 det, y2 det) color thickness)
      in if show_confidence then
           (let conf_text = format_percent cv (confidence det);
                text_size = getTextSize cv conf_text (7 / 10) 2;
                st2 = draw_on st1 result
                  (\<lambda>a. rectangle cv a (x1 det, y1 det - snd text_size - 10)
                         (x1 det + fst text_size + 5, y1 det) color (- 1));
                st3 = draw_on st2 result
                  (\<lambda>a. putText cv a conf_text (x1 det + 2, y1 det - 5) (7 / 10) (255, 255, 255) 2)
            in draw_loop cv dets color thickness show_confidence result st3)
         else draw_loop cv dets color thickness show_confidence result st1)"

definition draw_faces ::
  "cv2_api \<Rightarrow> store \<Rightarrow> nat \<Rightarrow> detection list \<Rightarrow> color \<Rightarrow> int \<Rightarrow> bool \<Rightarrow> store \<times> nat" where
  "draw_faces cv st img detections color thickness show_confidence =
     (case ndarray_copy st img of
        (st1, result) \<Rightarrow>
          (draw_loop cv detections color thickness show_confidence result st1, result))"

section \<open>WebcamFaceDetectionGUI\<close>

text \<open>
  The fields of \<open>self\<close> the loop reads and writes. The capture counts the calls of its
  \<open>release()\<close>; the Tk root counts the calls of \<open>quit()\<close> and knows whether
  \<open>destroy()\<close> has run. \<open>current_detections\<close> is \<open>None\<close> until the first store.
\<close>

record capture =
  release_calls :: nat

record tk_root =
  quit_calls :: nat
  destroyed :: bool

record gui =
  conf_threshold :: real
  skip_frames :: int
  inference_width :: int
  detector :: detector
  cap :: "capture option"
  running :: bool
  frame_count :: int
  detection_count :: int
  fps :: real
  detection_fps :: real
  last_time :: real
  last_detection_time :: real
  current_detections :: "detection list option"
  root :: tk_root

text \<open>
  The world outside the object: the values the successive calls of \<open>time.time()\<close>
  return, how many calls were made, and the lines printed.
\<close>

record world =
  clock :: "nat \<Rightarrow> real"
  reads :: nat
  stdout :: "string list"

definition time_time :: "world \<Rightarrow> real \<times> world" where
  "time_time wd = (clock wd (reads wd), wd\<lparr>reads := Suc (reads wd)\<rparr>)"

text \<open>
  \<open>__init__\<close> up to its last statement, the first call of \<open>update_frame\<close>, once the
  detector is loaded and the window built: \<open>opened\<close> is \<open>self.cap.isOpened()\<close>.
\<close>

definition init :: "detector \<Rightarrow> real \<Rightarrow> int \<Rightarrow> int \<Rightarrow> bool \<Rightarrow> world \<Rightarrow> gui \<times> world" where
  "init det conf_threshold' skip_frames' inference_width' opened wd =
     (case time_time wd of
        (t1, wd1) \<Rightarrow>
          (case time_time wd1 of
             (t2, wd2) \<Rightarrow>
               (\<lparr>conf_threshold = conf_threshold', skip_frames = skip_frames',
                 inference_width = inference_width', detector = det,
                 cap = Some \<lparr>release_calls = 0\<rparr>, running = opened,
                 frame_count = 0, detection_count = 0, fps = 0, detection_fps = 0,
                 last_time = t1, last_detection_time = t2, current_detections = None,
                 root = \<lparr>quit_calls = 0, destroyed = False\<rparr>\<rparr>, wd2)))"

subsection \<open>The two rate meters\<close>

text \<open>
  \<open>face_detection_yolov12.py\<close>, lines 222 to 226 (detection rate) and 245 to 249
  (render rate): each \<open>time.time()\<close> is a call of its own, so the test, the quotient
  and the new window start may see three different times. A zero divisor raises.
\<close>

definition detection_meter :: "gui \<times> world \<Rightarrow> py_exn + gui \<times> world" where
  "detection_meter sw =
     (case sw of (self, wd) \<Rightarrow>
        (let self1 = self\<lparr>detection_count := detection_count self + 1\<rparr> in
         case time_time wd of (t1, wd1) \<Rightarrow>
           if t1 - last_detection_time self1 \<ge> 1 then
             (case time_time wd1 of (t2, wd2) \<Rightarrow>
                if t2 - last_detection_time self1 = 0
                then Inl (PyExn ZeroDivisionError ''float division by zero'')
                else
                  (let self2 = self1\<lparr>detection_fps :=
                         of_int (detection_count self1) / (t2 - last_detection_time self1)\<rparr>;
                       self3 = self2\<lparr>detection_count := 0\<rparr>
                   in case time_time wd2 of (t3, wd3) \<Rightarrow>
                        Inr (self3\<lparr>last_detection_time := t3\<rparr>, wd3)))
           else Inr (self1, wd1)))"

definition render_meter :: "gui \<times> world \<Rightarrow> py_exn + gui \<times> world" where
  "render_meter sw =
     (case sw of (self, wd) \<Rightarrow>
        (let self1 = self\<lparr>frame_count := frame_count self + 1\<rparr> in
         case time_time wd of (t1, wd1) \<Rightarrow>
           if t1 - last_time self1 \<ge> 1 then
             (case time_time wd1 of (t2, wd2) \<Rightarrow>
                if t2 - last_time self1 = 0
                then Inl (PyExn ZeroDivisionError ''float division by zero'')
                else
                  (let self2 = self1\<lparr>fps := of_int (frame_count self1) / (t2 - last_time self1)\<rparr>;
                       self3 = self2\<lparr>frame_count := 0\<rparr>
                   in case time_time wd2 of (t3, wd3) \<Rightarrow>
                        Inr (self3\<lparr>last_time := t3\<rparr>, wd3)))
           else Inr (self1, wd1)))"

text \<open>
  \<open>face_detection_yolov8.py\<close>, lines 275 to 281 and 296 to 302: one reading
  \<open>current_time\<close> serves the test, the quotient and the new window start. The
  quotient is only taken when \<open>elapsed >= 1.0\<close>, so its divisor is not zero.
\<close>

definition detection_meter_v8 :: "gui \<times> world \<Rightarrow> gui \<times> world" where
  "detection_meter_v8 sw =
     (case sw of (self, wd) \<Rightarrow>
        (let self1 = self\<lparr>detection_count := detection_count self + 1\<rparr> in
         case time_time wd of (current_time, wd1) \<Rightarrow>
           (let elapsed = current_time - last_detection_time self1 in
            if elapsed \<ge> 1 then
              (let self2 = self1\<lparr>detection_fps := of_int (detection_count self1) / elapsed\<rparr>;
                   self3 = self2\<lparr>detection_count := 0\<rparr>
               in (self3\<lparr>last_detection_time := current_time\<rparr>, wd1))
            else (self1, wd1))))"

definition render_meter_v8 :: "gui \<times> world \<Rightarrow> gui \<times> world" where
  "render_meter_v8 sw =
     (case sw of (self, wd) \<Rightarrow>
        (let self1 = self\<lparr>frame_count := frame_count self + 1\<rparr> in
         case time_time wd of (current_time, wd1) \<Rightarrow>
           (let elapsed = current_time - last_time self1 in
            if elapsed \<ge> 1 then
              (let self2 = self1\<lparr>fps := of_int (frame_count self1) / elapsed\<rparr>;
                   self3 = self2\<lparr>frame_count := 0\<rparr>
               in (self3\<lparr>last_time := current_time\<rparr>, wd1))
            else (self1, wd1))))"

text \<open>Feeding a meter \<open>n\<close> ticks in a row, stopping at the first exception.\<close>

primrec feed :: "nat \<Rightarrow> ('s \<Rightarrow> py_exn + 's) \<Rightarrow> 's \<Rightarrow> py_exn + 's" where
  "feed 0 tick s = Inr s"
| "feed (Suc n) tick s = (case tick s of Inl e \<Rightarrow> Inl e | Inr s' \<Rightarrow> feed n tick s')"

subsection \<open>update_frame\<close>

text \<open>
  The read of the cache on a skip frame:
  \<open>self.current_detections if self.current_detections else []\<close>. \<open>None\<close> and the empty
  list are both false.
\<close>

definition cached_detections :: "gui \<Rightarrow> detection list" where
  "cached_detections self =
     (case current_detections self of
        None \<Rightarrow> []
      | Some ds \<Rightarrow> (if ds \<noteq> [] then ds else []))"

text \<open>
  What one call of \<open>update_frame\<close> put on the screen: whether it ran the detector, the
  detections it drew on the copy of the frame, and the two rates of its info text.
\<close>

record shown =
  detected :: bool
  drawn :: "detection list"
  fps_text :: real
  detection_fps_text :: real

text \<open>
  \<open>update_frame\<close> of \<open>face_detection_yolov12.py\<close>. Its argument \<open>rd\<close> is what
  \<open>self.cap.read()\<close> returns. The result is \<open>None\<close> when the function returns early
  (then it does not schedule itself again), and the exception when one leaves it: the
  modulo by a zero \<open>skip_frames\<close>, or a meter's division. The drawing itself
  (\<open>cv2.rectangle\<close>, \<open>cv2.putText\<close>, the resize for display) acts on the local copy of
  the frame only and is not modelled further than by what is drawn.
\<close>

definition update_frame ::
  "cv2_api \<Rightarrow> bool \<times> image \<Rightarrow> gui \<times> world \<Rightarrow> py_exn + gui \<times> world \<times> shown option" where
  "update_frame cv rd sw =
     (case sw of (self, wd) \<Rightarrow>
        if \<not> running self then Inr (self, wd, None)
        else
          (case rd of (ret, frame) \<Rightarrow>
             if \<not> ret then Inr (self, wd, None)
             else if skip_frames self = 0
             then Inl (PyExn ZeroDivisionError ''integer modulo by zero'')
             else
               (let should_detect = (frame_count self mod skip_frames self = 0) in
                case
                  (if should_detect then
                     (case detect_faces_optimized (detector self) cv frame
                             (conf_threshold self) (inference_width self) of
                        (detections, out) \<Rightarrow>
                          (case detection_meter
                                  (self\<lparr>current_detections := Some detections\<rparr>,
                                   wd\<lparr>stdout := stdout wd @ out\<rparr>) of
                             Inl e \<Rightarrow> Inl e
                           | Inr (self1, wd1) \<Rightarrow> Inr (self1, wd1, detections)))
                   else Inr (self, wd, cached_detections self)) of
                  Inl e \<Rightarrow> Inl e
                | Inr (self1, wd1, detections) \<Rightarrow>
                    (case render_meter (self1, wd1) of
                       Inl e \<Rightarrow> Inl e
                     | Inr (self2, wd2) \<Rightarrow>
                         Inr (self2, wd2,
                              Some \<lparr>detected = should_detect, drawn = detections,
                                    fps_text = fps self2,
                                    detection_fps_text = detection_fps self2\<rparr>)))))"

text \<open>
  The Tk main loop: \<open>update_frame\<close> schedules itself with \<open>root.after(1, ...)\<close> at its
  end, so it runs once per read of the source until it returns early or raises. The
  result lists what each processed frame showed, in order.
\<close>

fun mainloop ::
  "cv2_api \<Rightarrow> (bool \<times> image) list \<Rightarrow> gui \<times> world \<Rightarrow> py_exn + gui \<times> world \<times> shown list" where
  "mainloop cv [] sw = Inr (fst sw, snd sw, [])"
| "mainloop cv (rd # rds) sw =
     (case update_frame cv rd sw of
        Inl e \<Rightarrow> Inl e
      | Inr (self1, wd1, None) \<Rightarrow> Inr (self1, wd1, [])
      | Inr (self1, wd1, Some out) \<Rightarrow>
          (case mainloop cv rds (self1, wd1) of
             Inl e \<Rightarrow> Inl e
           | Inr (self2, wd2, outs) \<Rightarrow> Inr (self2, wd2, out # outs)))"

subsection \<open>on_quit\<close>

text \<open>
  \<open>on_quit\<close> is the same in both files. \<open>self.cap\<close> is never set back to \<open>None\<close>, so
  \<open>if self.cap:\<close> holds whenever a capture was created. Of tkinter: \<open>quit()\<close> only sets
  the flag that ends the main loop; \<open>destroy()\<close> on a root already destroyed raises
  \<open>TclError\<close>. The state is returned with the exception, since the assignments and
  calls before the failing one have happened.
\<close>

definition on_quit :: "gui \<Rightarrow> gui \<times> py_exn option" where
  "on_quit self =
     (let self1 = self\<lparr>running := False\<rparr>;
          self2 = (case cap self1 of
                     None \<Rightarrow> self1
                   | Some c \<Rightarrow> self1\<lparr>cap := Some (c\<lparr>release_calls := Suc (release_calls c)\<rparr>)\<rparr>);
          self3 = self2\<lparr>root := (root self2)\<lparr>quit_calls := Suc (quit_calls (root self2))\<rparr>\<rparr>
      in if destroyed (root self3)
         then (self3, Some (PyExn TclError
                 ''application has been destroyed''))
         else (self3\<lparr>root := (root self3)\<lparr>destroyed := True\<rparr>\<rparr>, None))"

section \<open>web_app.py\<close>

text \<open>
  The constructor of \<open>YOLOv12FaceDetector\<close>: \<open>YOLO\<close> is the loader of ultralytics.
  An \<open>ImportError\<close> is raised again as one, any other exception as a plain
  \<open>Exception\<close>.
\<close>

definition YOLOv12FaceDetector :: "(string \<Rightarrow> py_exn + detector) \<Rightarrow> string \<Rightarrow> py_exn + detector" where
  "YOLOv12FaceDetector YOLO' model_path =
     (case YOLO' model_path of
        Inr d \<Rightarrow> Inr d
      | Inl e \<Rightarrow>
          (if kind e = ImportError
           then Inl (PyExn ImportError ''ultralytics package not found. pip install ultralytics'')
           else Inl (PyExn PlainException (''Failed to load model: '' @ msg e))))"

definition ALLOWED_EXTENSIONS :: "string set" where
  "ALLOWED_EXTENSIONS = {''jpg'', ''jpeg'', ''png'', ''gif'', ''mp4'', ''avi'', ''mov'', ''mkv''}"

definition ALLOWED_MODELS :: "string set" where
  "ALLOWED_MODELS =
     {''yolov12n-face.pt'', ''yolov12s-face.pt'', ''yolov12m-face.pt'', ''yolov12l-face.pt''}"

text \<open>
  What the application takes from outside: \<open>secure_filename\<close> of werkzeug, the models
  directory, \<open>Path.resolve\<close> and \<open>Path.exists\<close>, the model loader, and the rest of
  the image handler after the detector is found (decoding, detection, drawing and the
  JSON answer, lines 118 to 161), which returns the answer or raises.
\<close>

record upload =
  filename :: string
  content :: "nat list"

record web_env =
  secure_filename :: "string \<Rightarrow> string"
  MODELS_DIR :: string
  resolve :: "string \<Rightarrow> py_exn + string"
  path_exists :: "string \<Rightarrow> bool"
  YOLO :: "string \<Rightarrow> py_exn + detector"
  respond :: "detector \<Rightarrow> upload \<Rightarrow> py_exn + string"

record request =
  files :: "string \<rightharpoonup> upload"
  form :: "string \<rightharpoonup> string"

datatype json = ErrorJson string | SuccessJson string

text \<open>\<open>str.startswith\<close> and the \<open>/\<close> of \<open>pathlib\<close>.\<close>

definition startswith :: "string \<Rightarrow> string \<Rightarrow> bool" where
  "startswith s p = (take (length p) s = p)"

definition path_join :: "string \<Rightarrow> string \<Rightarrow> string" where
  "path_join d n = d @ ''/'' @ n"

text \<open>
  \<open>get_detector\<close>, with the module's \<open>detector_cache\<close> passed in and returned. An
  exception is raised before the cache is written, so the cache is returned only
  with a detector. The \<open>ValueError\<close> of the symlink check is raised inside the
  \<open>try\<close> and leaves it as a \<open>FileNotFoundError\<close>.
\<close>

definition get_detector ::
  "web_env \<Rightarrow> (string \<rightharpoonup> detector) \<Rightarrow> string \<Rightarrow> py_exn + detector \<times> (string \<rightharpoonup> detector)" where
  "get_detector env detector_cache model_name =
     (let safe_name = secure_filename env model_name in
      if safe_name \<notin> ALLOWED_MODELS
      then Inl (PyExn ValueError (''Unsupported model: '' @ safe_name))
      else
        (case detector_cache safe_name of
           Some d \<Rightarrow> Inr (d, detector_cache)
         | None \<Rightarrow>
             (let model_path = path_join (MODELS_DIR env) safe_name in
              case
                (case resolve env model_path of
                   Inl e \<Rightarrow> Inl e
                 | Inr final_path \<Rightarrow>
                     (case resolve env (MODELS_DIR env) of
                        Inl e \<Rightarrow> Inl e
                      | Inr safe_root \<Rightarrow>
                          if \<not> startswith final_path safe_root
                          then Inl (PyExn ValueError ''Invalid model path (Symlink violation)'')
                          else Inr final_path)) of
                Inl e \<Rightarrow> Inl (PyExn FileNotFoundError (''Model path error: '' @ msg e))
              | Inr final_path \<Rightarrow>
                  if \<not> path_exists env final_path
                  then Inl (PyExn FileNotFoundError (''Model not found: '' @ final_path))
                  else
                    (case YOLOv12FaceDetector (YOLO env) final_path of
                       Inl e \<Rightarrow> Inl e
                     | Inr d \<Rightarrow> Inr (d, detector_cache(safe_name \<mapsto> d))))))"

text \<open>
  \<open>str.lower()\<close> on ASCII letters, and \<open>filename.rsplit('.', 1)[1]\<close>, which raises
  \<open>IndexError\<close> on a name without a dot.
\<close>

definition lower :: "string \<Rightarrow> string" where
  "lower s =
     map (\<lambda>c. if 65 \<le> (of_char c :: nat) \<and> (of_char c :: nat) \<le> 90
              then char_of ((of_char c :: nat) + 32) else c) s"

definition rsplit_ext :: "string \<Rightarrow> py_exn + string" where
  "rsplit_ext name =
     (if CHR ''.'' \<in> set name
      then Inr (rev (takeWhile (\<lambda>c. c \<noteq> CHR ''.'') (rev name)))
      else Inl (PyExn IndexError ''list index out of range''))"

definition allowed_file :: "string \<Rightarrow> bool" where
  "allowed_file name =
     (CHR ''.'' \<in> set name \<and>
      (case rsplit_ext name of Inl e \<Rightarrow> False | Inr ext \<Rightarrow> lower ext \<in> ALLOWED_EXTENSIONS))"

definition is_image :: "string \<Rightarrow> py_exn + bool" where
  "is_image name =
     (case rsplit_ext name of
        Inl e \<Rightarrow> Inl e
      | Inr ext \<Rightarrow> Inr (lower ext \<in> {''jpg'', ''jpeg'', ''png'', ''gif''}))"

text \<open>The model selection of \<open>detect_image\<close>, lines 110 to 113.\<close>

definition selected_model :: "request \<Rightarrow> string" where
  "selected_model req =
     (let model = (case form req ''model'' of None \<Rightarrow> ''yolov12l-face.pt'' | Some m \<Rightarrow> m)
      in if model \<notin> ALLOWED_MODELS then ''yolov12l-face.pt'' else model)"

text \<open>
  \<open>detect_image\<close>: the answer with its status code, and the cache afterwards. Any
  exception inside the handler's \<open>try\<close> gives the status 500. In
  \<open>not allowed_file(...) or not is_image(...)\<close> the second test runs only when the
  first one passed.
\<close>

definition detect_image ::
  "web_env \<Rightarrow> (string \<rightharpoonup> detector) \<Rightarrow> request \<Rightarrow> (json \<times> nat) \<times> (string \<rightharpoonup> detector)" where
  "detect_image env detector_cache req =
     (case files req ''file'' of
        None \<Rightarrow> ((ErrorJson ''No file provided'', 400), detector_cache)
      | Some file \<Rightarrow>
          if filename file = [] then ((ErrorJson ''No file selected'', 400), detector_cache)
          else if \<not> allowed_file (filename file)
          then ((ErrorJson ''Only image files allowed'', 400), detector_cache)
          else
            (case is_image (filename file) of
               Inl e \<Rightarrow>
                 ((ErrorJson ''Internal server error during image detection'', 500), detector_cache)
             | Inr False \<Rightarrow> ((ErrorJson ''Only image files allowed'', 400), detector_cache)
             | Inr True \<Rightarrow>
                 (case get_detector env detector_cache (selected_model req) of
                    Inl e \<Rightarrow>
                      ((ErrorJson ''Internal server error during image detection'', 500),
                       detector_cache)
                  | Inr (det, cache1) \<Rightarrow>
                      (case respond env det file of
                         Inl e \<Rightarrow>
                           ((ErrorJson ''Internal server error during image detection'', 500),
                            cache1)
                       | Inr answer \<Rightarrow> ((SuccessJson answer, 200), cache1)))))"

section \<open>Example inputs\<close>

text \<open>
  Concrete collaborators for the instances below: a 1280 by 720 frame and an 848 by
  480 frame, a \<open>cv2\<close> whose \<open>resize\<close> refuses an empty size, two detectors that
  find one face each and a detector whose call raises.
\<close>

definition frame_1280 :: image where
  "frame_1280 = \<lparr>height = 720, width = 1280, pixels = []\<rparr>"

definition plain_cv :: cv2_api where
  "plain_cv =
     \<lparr>resize = (\<lambda>a sz. if fst sz \<le> 0 then Inl (PyExn PlainException ''cv2.error'')
                        else if snd sz \<le> 0 then Inl (PyExn PlainException ''cv2.error'')
                        else Inr \<lparr>height = nat (snd sz), width = nat (fst sz), pixels = []\<rparr>),
      rectangle = (\<lambda>a p q col t. a\<lparr>pixels := pixels a @ [1]\<rparr>),
      putText = (\<lambda>a txt p sc col t. a\<lparr>pixels := pixels a @ [2]\<rparr>),
      getTextSize = (\<lambda>txt sc t. (int (length txt) * 10, 20)),
      format_percent = (\<lambda>r. ''90.0%'')\<rparr>"



definition one_box_detector :: detector where
  "one_box_detector = \<lparr>yolo = (\<lambda>a c. Inr [[Box 100 100 200 200 (9 / 10)]])\<rparr>"

definition failing_detector :: detector where
  "failing_detector = \<lparr>yolo = (\<lambda>a c. Inl (PyExn PlainException ''bad inference''))\<rparr>"

text \<open>
  For the loop: a clock whose readings are 0 (twice, in \<open>__init__\<close>), 0.5 (twice), 1.2
  (three times) and 1.7 from then on; a clock that advances by one thirtieth of a
  second per reading up to 1; a session that has not processed a frame yet. For the
  web application: an environment in which every model file exists and loads, and a
  request that uploads an image and asks for an unknown model.
\<close>

definition example_clock :: "nat \<Rightarrow> real" where
  "example_clock n = (if n < 2 then 0 else if n < 4 then 1 / 2 else if n < 7 then 6 / 5 else 17 / 10)"

definition example_world :: world where
  "example_world = \<lparr>clock = example_clock, reads = 0, stdout = []\<rparr>"

definition uniform_world :: world where
  "uniform_world = \<lparr>clock = (\<lambda>n. min 1 ((real n + 1) / 30)), reads = 0, stdout = []\<rparr>"

definition idle_gui :: gui where
  "idle_gui =
     \<lparr>conf_threshold = 1 / 2, skip_frames = 3, inference_width = 640,
      detector = one_box_detector, cap = Some \<lparr>release_calls = 0\<rparr>, running = True,
      frame_count = 0, detection_count = 0, fps = 0, detection_fps = 0,
      last_time = 0, last_detection_time = 0, current_detections = None,
      root = \<lparr>quit_calls = 0, destroyed = False\<rparr>\<rparr>"

definition example_env :: web_env where
  "example_env =
     \<lparr>secure_filename = filter (\<lambda>c. c \<noteq> CHR ''/''),
      MODELS_DIR = ''models'',
      resolve = (\<lambda>p. Inr (''/app/'' @ p)),
      path_exists = (\<lambda>p. True),
      YOLO = (\<lambda>p. Inr one_box_detector),
      respond = (\<lambda>d f. Inr ''ok'')\<rparr>"

definition example_request :: request where
  "example_request =
     \<lparr>files = [''file'' \<mapsto> \<lparr>filename = ''Face.JPG'', content = []\<rparr>],
      form = [''model'' \<mapsto> ''evil.pt'']\<rparr>"

section \<open>Notions used in the statements\<close>

text \<open>The derived fields of a detection agree with its coordinates.\<close>

definition derived_ok :: "detection \<Rightarrow> bool" where
  "derived_ok d = (w d = x2 d - x1 d \<and> h d = y2 d - y1 d \<and>
     cx d = (x1 d + x2 d) div 2 \<and> cy d = (y1 d + y2 d) div 2)"


text \<open>Which frames of a run of the loop ran the detector, in order.\<close>

definition shown_flags :: "py_exn + gui \<times> world \<times> shown list \<Rightarrow> bool list" where
  "shown_flags r = (case r of Inl e \<Rightarrow> [] | Inr (self, wd, outs) \<Rightarrow> map detected outs)"

text \<open>
  The RateMeter of the specification: a count, the start of the window and the last
  computed rate. One tick at the clock readings \<open>t1\<close> (compared with the threshold),
  \<open>t2\<close> (used for the quotient) and \<open>t3\<close> (the new window start) counts the tick and,
  once a second has passed, sets the rate to count over elapsed, resets the count and
  reopens the window. The two meters of a session are the views \<open>render_window\<close> and
  \<open>detection_window\<close> of its fields.
\<close>

record rate_window =
  count :: int
  window_start :: real
  rate :: real

definition render_window :: "gui \<Rightarrow> rate_window" where
  "render_window self = \<lparr>count = frame_count self, window_start = last_time self, rate = fps self\<rparr>"

definition detection_window :: "gui \<Rightarrow> rate_window" where
  "detection_window self =
     \<lparr>count = detection_count self, window_start = last_detection_time self,
      rate = detection_fps self\<rparr>"

definition tick_spec :: "real \<Rightarrow> real \<Rightarrow> real \<Rightarrow> rate_window \<Rightarrow> rate_window" where
  "tick_spec t1 t2 t3 rw =
     (if t1 - window_start rw \<ge> 1
      then \<lparr>count = 0, window_start = t3, rate = of_int (count rw + 1) / (t2 - window_start rw)\<rparr>
      else rw\<lparr>count := count rw + 1\<rparr>)"

definition meter_fps :: "py_exn + gui \<times> world \<Rightarrow> real option" where
  "meter_fps r = (case r of Inl e \<Rightarrow> None | Inr (self, wd) \<Rightarrow> Some (fps self))"

section \<open>Properties of the detectors\<close>

subsection \<open>Rounding\<close>



lemma pow2_pos: "0 < pow2 e"
  by (simp add: pow2_def)



lemma double_limit_power: "double_limit = 2 ^ 1024"
  by (simp add: double_limit_def flip: power_mult)




text \<open>
  \<open>ilog2\<close> is the binary exponent, and \<open>round_double\<close> moves a value by at most
  half a unit of the last digit at that exponent.
\<close>

lemma pow2_nonneg_exp: "0 \<le> e \<Longrightarrow> pow2 e = 2 ^ nat e"
  by (simp add: pow2_def)

lemma pow2_neg_exp: "e \<le> 0 \<Longrightarrow> pow2 e = 1 / 2 ^ nat (- e)"
  by (simp add: pow2_def)

lemma ilog2_bounds:
  assumes "0 < a"
  shows "pow2 (ilog2 a) \<le> a \<and> a < pow2 (ilog2 a + 1)"
proof (cases "1 \<le> a")
  case True
  define n where "n = \<lfloor>a\<rfloor>"
  from True have n: "1 \<le> n" by (simp add: n_def)
  then have bl: "1 \<le> bitlen n" by (simp add: bitlen_alt_def)
  from n bitlen_bounds [of n] have lo: "2 ^ nat (bitlen n - 1) \<le> n" and hi: "n < 2 ^ nat (bitlen n)"
    by simp_all
  have il: "ilog2 a = bitlen n - 1" using True by (simp add: ilog2_def n_def)
  from lo have "real_of_int (2 ^ nat (bitlen n - 1)) \<le> of_int n" by (simp only: of_int_le_iff)
  also have "\<dots> \<le> a" by (simp add: n_def)
  finally have 1: "pow2 (ilog2 a) \<le> a" using bl by (simp add: il pow2_nonneg_exp)
  from hi have "n + 1 \<le> 2 ^ nat (bitlen n)" by simp
  then have "real_of_int (n + 1) \<le> of_int (2 ^ nat (bitlen n))" by (simp only: of_int_le_iff)
  moreover have "a < real_of_int (n + 1)" by (simp add: n_def)
  ultimately have 2: "a < pow2 (ilog2 a + 1)" using bl by (simp add: il pow2_nonneg_exp)
  from 1 2 show ?thesis by simp
next
  case False
  then have a1: "a < 1" by simp
  define n where "n = \<lfloor>1 / a\<rfloor>"
  define k where "k = bitlen n"
  from assms a1 have "1 < 1 / a" by simp
  then have n: "1 \<le> n" unfolding n_def by linarith
  then have k1: "1 \<le> k" by (simp add: k_def bitlen_alt_def)
  from n bitlen_bounds [of n] have lo: "2 ^ nat (k - 1) \<le> n" and hi: "n < 2 ^ nat k"
    by (simp_all add: k_def)
  from lo have "real_of_int (2 ^ nat (k - 1)) \<le> of_int n" by (simp only: of_int_le_iff)
  also have "\<dots> \<le> 1 / a" by (simp add: n_def)
  finally have lo': "2 ^ nat (k - 1) \<le> 1 / a" by simp
  from hi have "n + 1 \<le> 2 ^ nat k" by simp
  then have "real_of_int (n + 1) \<le> of_int (2 ^ nat k)" by (simp only: of_int_le_iff)
  moreover have "1 / a < real_of_int (n + 1)" unfolding n_def by linarith
  ultimately have hi': "1 / a < 2 ^ nat k" by simp
  from lo' assms have lo'': "a * 2 ^ nat (k - 1) \<le> 1"
    by (simp add: field_simps)
  from hi' assms have hi'': "1 < a * 2 ^ nat k"
    by (simp add: field_simps)
  show ?thesis
  proof (cases "a * 2 ^ nat (k - 1) = 1")
    case True
    with a1 have "k \<noteq> 1" by auto
    with k1 have k2: "2 \<le> k" by simp
    have il: "ilog2 a = 1 - k" using a1 True by (simp add: ilog2_def Let_def n_def k_def)
    from True have a: "a = 1 / 2 ^ nat (k - 1)" by (simp add: field_simps)
    have e1: "nat (- (1 - k)) = nat (k - 1)" by simp
    have "pow2 (ilog2 a) = 1 / 2 ^ nat (k - 1)" using k2 by (simp add: il pow2_neg_exp e1)
    with a have 1: "pow2 (ilog2 a) \<le> a" by simp
    have "nat (k - 1) = Suc (nat (k - 2))" using k2 by simp
    then have "a * 2 ^ nat (k - 2) = 1 / 2" using True by simp
    then have "a < 1 / 2 ^ nat (k - 2)" by (simp add: field_simps)
    moreover have "nat (- (1 - k + 1)) = nat (k - 2)" by simp
    ultimately have 2: "a < pow2 (ilog2 a + 1)" using k2 by (simp add: il pow2_neg_exp)
    from 1 2 show ?thesis by simp
  next
    case False
    have il: "ilog2 a = - k" using a1 False by (simp add: ilog2_def Let_def n_def k_def)
    from hi'' have 1: "pow2 (ilog2 a) \<le> a" using k1 by (simp add: il pow2_neg_exp field_simps)
    from False lo'' have "a * 2 ^ nat (k - 1) < 1" by simp
    then have "a < 1 / 2 ^ nat (k - 1)" by (simp add: field_simps)
    moreover have "nat (- (- k + 1)) = nat (k - 1)" by simp
    ultimately have 2: "a < pow2 (ilog2 a + 1)" using k1 by (simp add: il pow2_neg_exp)
    from 1 2 show ?thesis by simp
  qed
qed


lemma rne_near: "\<bar>of_int (rne t) - t\<bar> \<le> 1 / 2"
  by (auto simp: rne_def Let_def; linarith)

lemma round_double_near:
  assumes "round_double x = Some y"
  shows "\<bar>y - x\<bar> \<le> pow2 (max (ilog2 \<bar>x\<bar> - 52) (- 1074)) / 2"
proof (cases "x = 0")
  case True
  with assms pow2_pos [of "max (ilog2 \<bar>x\<bar> - 52) (- 1074)"] show ?thesis
    by (simp add: round_double_def)
next
  case False
  define e where "e = max (ilog2 \<bar>x\<bar> - 52) (- 1074)"
  define n where "n = rne (\<bar>x\<bar> / pow2 e)"
  from False assms have y: "y = sgn x * (of_int n * pow2 e)"
    by (auto simp: round_double_def Let_def e_def n_def split: if_splits)
  have "\<bar>y - x\<bar> = \<bar>of_int n * pow2 e - \<bar>x\<bar>\<bar>"
    using False by (cases "0 < x") (simp_all add: y sgn_if abs_if)
  also have "\<dots> = \<bar>of_int n - \<bar>x\<bar> / pow2 e\<bar> * pow2 e"
    using pow2_pos [of e] by (simp add: abs_mult [symmetric] field_simps)
  also have "\<dots> \<le> 1 / 2 * pow2 e"
    using rne_near [of "\<bar>x\<bar> / pow2 e"] pow2_pos [of e]
    by (intro mult_right_mono) (simp_all add: n_def)
  finally show ?thesis by (simp add: e_def)
qed

text \<open>
  The float expressions at the sizes used below. At width 848 and cap 640 the scale
  is not \<open>640 / 848\<close> but the double next to it, and \<open>320\<close> divided by it is just
  below \<open>424\<close>; at height 1080 and scale \<open>416 / 1440\<close> the product is just below
  \<open>312\<close>.
\<close>

lemma scale_half: "int_true_div 640 1280 = Inr (1 / 2)"
  by code_simp

lemma height_360: "int_of_product 720 (1 / 2) = Inr 360"
  by code_simp

lemma double_100: "int_of_quotient 100 (1 / 2) = Inr 200"
  by code_simp

lemma double_200: "int_of_quotient 200 (1 / 2) = Inr 400"
  by code_simp




lemma scale_1440: "int_true_div 416 1440 = Inr (2602079784702953 / 9007199254740992)"
  by code_simp

lemma height_1440: "int_of_product 1080 (2602079784702953 / 9007199254740992) = Inr 311"
  by code_simp

subsection \<open>Derived fields\<close>

lemma derived_ok_make_detection: "derived_ok (make_detection a b c d conf)"
  by (simp add: derived_ok_def make_detection_def)

lemma boxes_loop_derived_ok:
  "list_all derived_ok ds \<Longrightarrow> list_all derived_ok (fst (boxes_loop bs ds))"
  by (induction bs ds rule: boxes_loop.induct) (simp_all add: derived_ok_make_detection)

lemma results_loop_derived_ok:
  "list_all derived_ok ds \<Longrightarrow> list_all derived_ok (fst (results_loop rs ds))"
proof (induction rs arbitrary: ds)
  case Nil
  then show ?case by simp
next
  case (Cons r rs)
  have ok: "list_all derived_ok (fst (boxes_loop r ds))"
    using Cons.prems by (rule boxes_loop_derived_ok)
  show ?case
  proof (cases "boxes_loop r ds")
    case (Pair ds' eo)
    with ok have ok': "list_all derived_ok ds'" by simp
    show ?thesis
      using Pair ok' Cons.IH [OF ok'] by (cases eo) simp_all
  qed
qed

lemma boxes_loop_optimized_derived_ok:
  "list_all derived_ok ds \<Longrightarrow> list_all derived_ok (fst (boxes_loop_optimized s bs ds))"
  by (induction s bs ds rule: boxes_loop_optimized.induct)
     (simp_all add: derived_ok_make_detection split: sum.splits)

lemma results_loop_optimized_derived_ok:
  "list_all derived_ok ds \<Longrightarrow> list_all derived_ok (fst (results_loop_optimized s rs ds))"
proof (induction rs arbitrary: ds)
  case Nil
  then show ?case by simp
next
  case (Cons r rs)
  have ok: "list_all derived_ok (fst (boxes_loop_optimized s r ds))"
    using Cons.prems by (rule boxes_loop_optimized_derived_ok)
  show ?case
  proof (cases "boxes_loop_optimized s r ds")
    case (Pair ds' eo)
    with ok have ok': "list_all derived_ok ds'" by simp
    show ?thesis
      using Pair ok' Cons.IH [OF ok'] by (cases eo) simp_all
  qed
qed

lemma detect_faces_derived_ok: "list_all derived_ok (fst (detect_faces self img c))"
proof (cases "yolo self img c")
  case (Inl e)
  then show ?thesis by (simp add: detect_faces_def)
next
  case (Inr results)
  have "list_all derived_ok (fst (results_loop results []))"
    by (rule results_loop_derived_ok) simp
  with Inr show ?thesis
    by (auto simp: detect_faces_def split: prod.splits option.splits)
qed

lemma detect_faces_optimized_derived_ok:
  "list_all derived_ok (fst (detect_faces_optimized self cv img c m))"
proof (cases "inference_input cv img m")
  case (Inl e)
  then show ?thesis by (simp add: detect_faces_optimized_def)
next
  case (Inr p)
  obtain s img' where p: "p = (s, img')" by (cases p)
  show ?thesis
  proof (cases "yolo self img' c")
    case (Inl e)
    with Inr p show ?thesis by (simp add: detect_faces_optimized_def)
  next
    case yolo_ok: (Inr results)
    have "list_all derived_ok (fst (results_loop_optimized s results []))"
      by (rule results_loop_optimized_derived_ok) simp
    with Inr p yolo_ok show ?thesis
      by (auto simp: detect_faces_optimized_def split: prod.splits option.splits)
  qed
qed

lemma floor_half: "\<lfloor>real_of_int a / 2\<rfloor> = a div 2"
  using floor_divide_of_int_eq [of a 2, where ?'a = real] by simp

text \<open>
  Claim C3. Every detection returned by \<open>detect_faces\<close> or by
  \<open>detect_faces_optimized\<close> (after any rescaling) has its derived fields computed
  from the coordinates it stores: \<open>w = x2 - x1\<close>, \<open>h = y2 - y1\<close>,
  \<open>cx = floor((x1 + x2) / 2)\<close> and \<open>cy = floor((y1 + y2) / 2)\<close>.
\<close>

theorem derived_fields_consistent:
  "\<forall>d \<in> set (fst (detect_faces self img c)) \<union>
         set (fst (detect_faces_optimized self cv img c m)).
     w d = x2 d - x1 d \<and> h d = y2 d - y1 d \<and>
     cx d = \<lfloor>real_of_int (x1 d + x2 d) / 2\<rfloor> \<and> cy d = \<lfloor>real_of_int (y1 d + y2 d) / 2\<rfloor>"
  using detect_faces_derived_ok [of self img c]
    detect_faces_optimized_derived_ok [of self cv img c m]
  unfolding list_all_iff derived_ok_def floor_half by blast

theorem derived_fields_consistent_witness:
  "fst (detect_faces_optimized one_box_detector plain_cv frame_1280 (1 / 2) 640) =
     [\<lparr>x1 = 200, y1 = 200, x2 = 400, y2 = 400, confidence = 9 / 10,
       w = 200, h = 200, cx = 300, cy = 300\<rparr>] \<and>
   fst (detect_faces one_box_detector frame_1280 (1 / 2)) =
     [\<lparr>x1 = 100, y1 = 100, x2 = 200, y2 = 200, confidence = 9 / 10,
       w = 100, h = 100, cx = 150, cy = 150\<rparr>] \<and>
   (200::int) = 400 - 200 \<and> (300::int) = \<lfloor>real_of_int (200 + 400) / 2\<rfloor> \<and>
   (100::int) = 200 - 100 \<and> (150::int) = \<lfloor>real_of_int (100 + 200) / 2\<rfloor>"
  using derived_fields_consistent [of one_box_detector frame_1280 "1 / 2" plain_cv 640]
  by (simp add: detect_faces_optimized_def detect_faces_def inference_input_def
      one_box_detector_def plain_cv_def frame_1280_def make_detection_def py_int_def
      scale_half height_360 double_100 double_200)

subsection \<open>A failing detector call\<close>

text \<open>
  Claim C6. When the call of the detector raises, \<open>detect_faces\<close> and
  \<open>detect_faces_optimized\<close> return the empty list and print one diagnostic line;
  the same holds when \<open>detect_faces_optimized\<close> fails before the call. Neither
  function has an exceptional result: the \<open>try\<close> block spans the whole body, so
  nothing reaches the caller.
\<close>

theorem detector_exception_absorbed:
  "(yolo self img c = Inl e \<longrightarrow> detect_faces self img c = ([], [detection_error e])) \<and>
   (inference_input cv img m = Inr (s, img') \<and> yolo self img' c = Inl e \<longrightarrow>
      detect_faces_optimized self cv img c m = ([], [detection_error e])) \<and>
   (inference_input cv img m = Inl e \<longrightarrow>
      detect_faces_optimized self cv img c m = ([], [detection_error e]))"
  by (simp add: detect_faces_def detect_faces_optimized_def)

theorem detector_exception_absorbed_witness:
  "detect_faces failing_detector frame_1280 (1 / 2) = ([], [''Detection error: bad inference'']) \<and>
   inference_input plain_cv frame_1280 640 =
     Inr (1 / 2, \<lparr>height = 360, width = 640, pixels = []\<rparr>) \<and>
   detect_faces_optimized failing_detector plain_cv frame_1280 (1 / 2) 640 =
     ([], [''Detection error: bad inference''])"
proof -
  have inp: "inference_input plain_cv frame_1280 640 =
      Inr (1 / 2, \<lparr>height = 360, width = 640, pixels = []\<rparr>)"
    by (simp add: inference_input_def plain_cv_def frame_1280_def scale_half height_360)
  have raises: "yolo failing_detector a (1 / 2) = Inl (PyExn PlainException ''bad inference'')" for a
    by (simp add: failing_detector_def)
  from detector_exception_absorbed
    [of failing_detector frame_1280 "1 / 2" "PyExn PlainException ''bad inference''"
        plain_cv 640 "1 / 2" "\<lparr>height = 360, width = 640, pixels = []\<rparr>"]
  show ?thesis using inp raises by (simp add: detection_error_def)
qed

subsection \<open>Frames that need no rescaling\<close>

lemma boxes_loop_optimized_one: "boxes_loop_optimized 1 bs ds = boxes_loop bs ds"
  by (induction bs ds rule: boxes_loop.induct) simp_all

lemma results_loop_optimized_one: "results_loop_optimized 1 rs ds = results_loop rs ds"
  by (induction rs arbitrary: ds) (simp_all add: boxes_loop_optimized_one)

lemma detect_faces_optimized_unscaled:
  "inference_input cv img m = Inr (1, img) \<Longrightarrow>
   detect_faces_optimized self cv img c m = detect_faces self img c"
  by (simp add: detect_faces_optimized_def detect_faces_def results_loop_optimized_one
      split: sum.splits)

lemma inference_input_narrow: "int (width img) \<le> m \<Longrightarrow> inference_input cv img m = Inr (1, img)"
  by (simp add: inference_input_def)

text \<open>
  Claim C7, as the code has it. The code has no \<open>InvalidFrameError\<close> and no test of
  the width against zero. A frame of width 0 (a numpy width is never negative) is not
  rejected: with \<open>max_width >= 0\<close> it goes to the detector unscaled and the result is
  that of \<open>detect_faces\<close>; with \<open>max_width < 0\<close> the division \<open>max_width / width\<close>
  raises \<open>ZeroDivisionError\<close> inside the \<open>try\<close> block, and the function returns the
  empty list with one diagnostic line.
\<close>

theorem zero_width_frame_not_rejected:
  "width img = 0 \<Longrightarrow>
   (0 \<le> m \<longrightarrow> inference_input cv img m = Inr (1, img) \<and>
      detect_faces_optimized self cv img c m = detect_faces self img c) \<and>
   (m < 0 \<longrightarrow> detect_faces_optimized self cv img c m =
      ([], [detection_error (PyExn ZeroDivisionError ''division by zero'')]))"
  by (simp add: detect_faces_optimized_unscaled inference_input_narrow)
     (simp add: detect_faces_optimized_def inference_input_def int_true_div_def)

theorem zero_width_frame_not_rejected_witness:
  "width \<lparr>height = 480, width = 0, pixels = []\<rparr> = 0 \<and>
   detect_faces_optimized one_box_detector plain_cv
       \<lparr>height = 480, width = 0, pixels = []\<rparr> (1 / 2) 640 =
     detect_faces one_box_detector \<lparr>height = 480, width = 0, pixels = []\<rparr> (1 / 2) \<and>
   fst (detect_faces one_box_detector \<lparr>height = 480, width = 0, pixels = []\<rparr> (1 / 2)) \<noteq> [] \<and>
   detect_faces_optimized one_box_detector plain_cv
       \<lparr>height = 480, width = 0, pixels = []\<rparr> (1 / 2) (- 1) =
     ([], [''Detection error: division by zero''])"
  using zero_width_frame_not_rejected
    [of "\<lparr>height = 480, width = 0, pixels = []\<rparr>" 640 plain_cv one_box_detector "1 / 2"]
    zero_width_frame_not_rejected
    [of "\<lparr>height = 480, width = 0, pixels = []\<rparr>" "- 1" plain_cv one_box_detector "1 / 2"]
  by (simp add: detect_faces_def one_box_detector_def detection_error_def)

text \<open>
  Claim C7 as stated fails: on a frame of width 0 the detector is called and its box
  is returned, with nothing printed and nothing raised.
\<close>

theorem zero_width_frame_is_processed:
  "detect_faces_optimized one_box_detector plain_cv
       \<lparr>height = 480, width = 0, pixels = []\<rparr> (1 / 2) 640 =
     ([\<lparr>x1 = 100, y1 = 100, x2 = 200, y2 = 200, confidence = 9 / 10,
        w = 100, h = 100, cx = 150, cy = 150\<rparr>], [])"
  by (simp add: detect_faces_optimized_def inference_input_def one_box_detector_def
      make_detection_def py_int_def)

subsection \<open>Rescaling to the source resolution\<close>

text \<open>\<open>py_int\<close> truncates toward zero: it never moves away from zero and moves by less than 1.\<close>

lemma py_int_toward_zero:
  "(0 \<le> r \<longrightarrow> of_int (py_int r) \<le> r \<and> r < of_int (py_int r) + 1) \<and>
   (r \<le> 0 \<longrightarrow> r \<le> of_int (py_int r) \<and> of_int (py_int r) - 1 < r)"
  by (auto simp: py_int_def) linarith+







text \<open>
  The height of the resized frame is computed in floats as well: a 1440 by 1080
  frame at the cap 416 is resized to the height 311.
\<close>

lemma inference_input_1440:
  "inference_input plain_cv \<lparr>height = 1080, width = 1440, pixels = []\<rparr> 416 =
     Inr (2602079784702953 / 9007199254740992, \<lparr>height = 311, width = 416, pixels = []\<rparr>)"
  by (simp add: inference_input_def plain_cv_def scale_1440 height_1440)

subsection \<open>draw_faces and its input\<close>

lemma draw_on_length: "length (draw_on st r f) = length st"
  by (simp add: draw_on_def)

lemma draw_on_other: "r' \<noteq> r \<Longrightarrow> draw_on st r f ! r' = st ! r'"
  by (simp add: draw_on_def)

lemma draw_loop_length:
  "length (draw_loop cv dets col th sc r st) = length st"
  by (induction dets arbitrary: st sc) (simp_all add: Let_def draw_on_length)

lemma draw_loop_other:
  "r' \<noteq> r \<Longrightarrow> draw_loop cv dets col th sc r st ! r' = st ! r'"
  by (induction dets arbitrary: st sc) (simp_all add: Let_def draw_on_other)

text \<open>
  Claim C8. For every frame in the store and every list of detections,
  \<open>draw_faces\<close> returns a reference to a newly allocated array and leaves every
  array that existed before the call, the input frame among them, as it was.
\<close>

theorem draw_faces_leaves_input:
  assumes "img < length st" and "draw_faces cv st img dets col th sc = (st', result)"
  shows "result = length st \<and> result \<noteq> img \<and> length st' = Suc (length st) \<and>
         (\<forall>r < length st. st' ! r = st ! r) \<and> st' ! img = st ! img \<and>
         (dets = [] \<longrightarrow> st' ! result = st ! img)"
proof -
  from assms(2) have res: "result = length st"
    and st': "st' = draw_loop cv dets col th sc (length st) (st @ [st ! img])"
    by (auto simp: draw_faces_def ndarray_copy_def)
  have other: "st' ! r = st ! r" if "r < length st" for r
    using that st' by (simp add: draw_loop_other nth_append)
  from res st' other assms(1) show ?thesis
    by (auto simp: draw_loop_length)
qed

theorem draw_faces_leaves_input_witness:
  "(0::nat) < length [frame_1280] \<and>
   draw_faces plain_cv [frame_1280] 0
     [\<lparr>x1 = 100, y1 = 100, x2 = 200, y2 = 200, confidence = 9 / 10,
       w = 100, h = 100, cx = 150, cy = 150\<rparr>] (0, 255, 0) 2 True =
     ([frame_1280, frame_1280\<lparr>pixels := [1, 1, 2]\<rparr>], 1) \<and>
   [frame_1280, frame_1280\<lparr>pixels := [1, 1, 2]\<rparr>] ! 0 = [frame_1280] ! 0"
proof -
  have run: "draw_faces plain_cv [frame_1280] 0
     [\<lparr>x1 = 100, y1 = 100, x2 = 200, y2 = 200, confidence = 9 / 10,
       w = 100, h = 100, cx = 150, cy = 150\<rparr>] (0, 255, 0) 2 True =
     ([frame_1280, frame_1280\<lparr>pixels := [1, 1, 2]\<rparr>], 1)"
    by (simp add: draw_faces_def ndarray_copy_def draw_on_def plain_cv_def frame_1280_def Let_def)
  have valid: "(0::nat) < length [frame_1280]" by simp
  from draw_faces_leaves_input [OF valid run] run show ?thesis by simp
qed

section \<open>Properties of the real-time loop\<close>

subsection \<open>The skip decision\<close>

lemma update_frame_detects_iff:
  assumes "running self" and "skip_frames self \<noteq> 0"
    and "update_frame cv (True, frame) (self, wd) = Inr (self', wd', Some out)"
  shows "detected out = (frame_count self mod skip_frames self = 0)"
  using assms
  by (auto simp: update_frame_def Let_def split: if_splits sum.splits prod.splits)

lemma init_example:
  "init one_box_detector (1 / 2) 3 640 True example_world =
     (\<lparr>conf_threshold = 1 / 2, skip_frames = 3, inference_width = 640,
       detector = one_box_detector, cap = Some \<lparr>release_calls = 0\<rparr>, running = True,
       frame_count = 0, detection_count = 0, fps = 0, detection_fps = 0,
       last_time = 0, last_detection_time = 0, current_detections = None,
       root = \<lparr>quit_calls = 0, destroyed = False\<rparr>\<rparr>,
      \<lparr>clock = example_clock, reads = 2, stdout = []\<rparr>)"
  by (simp add: init_def time_time_def example_world_def example_clock_def)

text \<open>
  Claim C1, on the code. \<open>update_frame\<close> decides by \<open>frame_count mod skip_frames\<close>,
  but \<open>frame_count\<close> is also the counter of the render-rate meter, which sets it
  back to 0 whenever its window closes. With \<open>skip_frames = 3\<close> and three frames
  shown at 0.5, 1.2 and 1.7 seconds, the window closes on the second frame, so the
  third frame (index 2) runs the detector again: two calls in a run of three frames,
  where every third frame would give one.
\<close>

theorem skip_counter_reset_by_render_meter:
  "shown_flags (mainloop plain_cv [(True, frame_1280), (True, frame_1280), (True, frame_1280)]
      (init one_box_detector (1 / 2) 3 640 True example_world)) = [True, False, True]"
  unfolding init_example
  by (simp add: shown_flags_def update_frame_def detection_meter_def render_meter_def
      time_time_def example_clock_def cached_detections_def Let_def
      split: prod.splits)

subsection \<open>The rate meters\<close>

lemma render_meter_v8_refines:
  "render_window (fst (render_meter_v8 (self, wd))) =
     tick_spec (clock wd (reads wd)) (clock wd (reads wd)) (clock wd (reads wd)) (render_window self) \<and>
   detection_window (fst (render_meter_v8 (self, wd))) = detection_window self"
  by (simp add: render_meter_v8_def render_window_def detection_window_def tick_spec_def
      time_time_def Let_def)

lemma detection_meter_v8_refines:
  "detection_window (fst (detection_meter_v8 (self, wd))) =
     tick_spec (clock wd (reads wd)) (clock wd (reads wd)) (clock wd (reads wd))
       (detection_window self) \<and>
   render_window (fst (detection_meter_v8 (self, wd))) = render_window self"
  by (simp add: detection_meter_v8_def render_window_def detection_window_def tick_spec_def
      time_time_def Let_def)

lemma render_meter_refines:
  assumes "clock wd (reads wd) - last_time self \<ge> 1 \<longrightarrow> clock wd (Suc (reads wd)) \<noteq> last_time self"
  shows "\<exists>self' wd'. render_meter (self, wd) = Inr (self', wd') \<and>
     render_window self' =
       tick_spec (clock wd (reads wd)) (clock wd (Suc (reads wd))) (clock wd (Suc (Suc (reads wd))))
         (render_window self) \<and>
     detection_window self' = detection_window self"
  using assms
  by (simp add: render_meter_def render_window_def detection_window_def tick_spec_def
      time_time_def Let_def)

lemma detection_meter_refines:
  assumes "clock wd (reads wd) - last_detection_time self \<ge> 1 \<longrightarrow>
           clock wd (Suc (reads wd)) \<noteq> last_detection_time self"
  shows "\<exists>self' wd'. detection_meter (self, wd) = Inr (self', wd') \<and>
     detection_window self' =
       tick_spec (clock wd (reads wd)) (clock wd (Suc (reads wd))) (clock wd (Suc (Suc (reads wd))))
         (detection_window self) \<and>
     render_window self' = render_window self"
  using assms
  by (simp add: detection_meter_def render_window_def detection_window_def tick_spec_def
      time_time_def Let_def)

lemma scenario_v8:
  "frame_count self = 0 \<Longrightarrow> last_time self = 0 \<Longrightarrow>
   meter_fps (feed 30 (\<lambda>sw. Inr (render_meter_v8 sw)) (self, uniform_world)) = Some 30"
  by (simp add: eval_nat_numeral meter_fps_def render_meter_v8_def time_time_def
      uniform_world_def Let_def)

lemma scenario_v12:
  "frame_count self = 0 \<Longrightarrow> last_time self = 0 \<Longrightarrow>
   meter_fps (feed 30 render_meter (self, uniform_world)) = Some 30"
  by (simp add: eval_nat_numeral meter_fps_def render_meter_def time_time_def
      uniform_world_def Let_def)


text \<open>
  Claim C4. Each of the four meter blocks (render rate and detection rate, in both
  files) is a tick of the RateMeter on its own window and leaves the other window
  untouched. A tick before one second has elapsed keeps the rate and counts; a tick
  that sees one second or more sets the rate to count over elapsed, resets the
  count and reopens the window at the current time. In \<open>face_detection_yolov8.py\<close>
  the three times are one reading; in \<open>face_detection_yolov12.py\<close> each is a call
  of \<open>time.time()\<close> of its own. A rate computed by a tick is positive, never the
  zero of an empty window, and without a tick nothing changes. Thirty ticks spread
  evenly over one second report the rate 30. Floats are reals here.
\<close>

theorem rate_meters_follow_tick:
  assumes "t1 = clock wd (reads wd)" and "t2 = clock wd (Suc (reads wd))"
    and "t3 = clock wd (Suc (Suc (reads wd)))"
  shows
    "(render_window (fst (render_meter_v8 (self, wd))) = tick_spec t1 t1 t1 (render_window self) \<and>
      detection_window (fst (render_meter_v8 (self, wd))) = detection_window self) \<and>
     (detection_window (fst (detection_meter_v8 (self, wd))) =
        tick_spec t1 t1 t1 (detection_window self) \<and>
      render_window (fst (detection_meter_v8 (self, wd))) = render_window self) \<and>
     ((t1 - last_time self \<ge> 1 \<longrightarrow> t2 \<noteq> last_time self) \<longrightarrow>
        (\<exists>self' wd'. render_meter (self, wd) = Inr (self', wd') \<and>
           render_window self' = tick_spec t1 t2 t3 (render_window self) \<and>
           detection_window self' = detection_window self)) \<and>
     ((t1 - last_detection_time self \<ge> 1 \<longrightarrow> t2 \<noteq> last_detection_time self) \<longrightarrow>
        (\<exists>self' wd'. detection_meter (self, wd) = Inr (self', wd') \<and>
           detection_window self' = tick_spec t1 t2 t3 (detection_window self) \<and>
           render_window self' = render_window self)) \<and>
     (t1 - window_start rw < 1 \<longrightarrow>
        rate (tick_spec t1 t2 t3 rw) = rate rw \<and> count (tick_spec t1 t2 t3 rw) = count rw + 1 \<and>
        window_start (tick_spec t1 t2 t3 rw) = window_start rw) \<and>
     (t1 - window_start rw \<ge> 1 \<longrightarrow>
        rate (tick_spec t1 t2 t3 rw) = of_int (count rw + 1) / (t2 - window_start rw) \<and>
        count (tick_spec t1 t2 t3 rw) = 0 \<and> window_start (tick_spec t1 t2 t3 rw) = t3) \<and>
     (0 \<le> count rw \<and> t1 - window_start rw \<ge> 1 \<and> window_start rw < t2 \<longrightarrow>
        0 < rate (tick_spec t1 t2 t3 rw)) \<and>
     feed 0 tick sw = Inr sw \<and>
     (frame_count self = 0 \<and> last_time self = 0 \<longrightarrow>
        meter_fps (feed 30 (\<lambda>sw. Inr (render_meter_v8 sw)) (self, uniform_world)) = Some 30 \<and>
        meter_fps (feed 30 render_meter (self, uniform_world)) = Some 30)"
proof -
  have v8r: "render_window (fst (render_meter_v8 (self, wd))) = tick_spec t1 t1 t1 (render_window self) \<and>
      detection_window (fst (render_meter_v8 (self, wd))) = detection_window self"
    using render_meter_v8_refines [of self wd] assms by simp
  have v8d: "detection_window (fst (detection_meter_v8 (self, wd))) =
        tick_spec t1 t1 t1 (detection_window self) \<and>
      render_window (fst (detection_meter_v8 (self, wd))) = render_window self"
    using detection_meter_v8_refines [of self wd] assms by simp
  have v12r: "(t1 - last_time self \<ge> 1 \<longrightarrow> t2 \<noteq> last_time self) \<longrightarrow>
        (\<exists>self' wd'. render_meter (self, wd) = Inr (self', wd') \<and>
           render_window self' = tick_spec t1 t2 t3 (render_window self) \<and>
           detection_window self' = detection_window self)"
    using render_meter_refines [of wd self] assms by simp
  have v12d: "(t1 - last_detection_time self \<ge> 1 \<longrightarrow> t2 \<noteq> last_detection_time self) \<longrightarrow>
        (\<exists>self' wd'. detection_meter (self, wd) = Inr (self', wd') \<and>
           detection_window self' = tick_spec t1 t2 t3 (detection_window self) \<and>
           render_window self' = render_window self)"
    using detection_meter_refines [of wd self] assms by simp
  have below: "t1 - window_start rw < 1 \<longrightarrow>
        rate (tick_spec t1 t2 t3 rw) = rate rw \<and> count (tick_spec t1 t2 t3 rw) = count rw + 1 \<and>
        window_start (tick_spec t1 t2 t3 rw) = window_start rw"
    by (simp add: tick_spec_def)
  have closes: "t1 - window_start rw \<ge> 1 \<longrightarrow>
        rate (tick_spec t1 t2 t3 rw) = of_int (count rw + 1) / (t2 - window_start rw) \<and>
        count (tick_spec t1 t2 t3 rw) = 0 \<and> window_start (tick_spec t1 t2 t3 rw) = t3"
    by (simp add: tick_spec_def)
  have positive: "0 \<le> count rw \<and> t1 - window_start rw \<ge> 1 \<and> window_start rw < t2 \<longrightarrow>
        0 < rate (tick_spec t1 t2 t3 rw)"
    by (simp add: tick_spec_def)
  have thirty: "frame_count self = 0 \<and> last_time self = 0 \<longrightarrow>
        meter_fps (feed 30 (\<lambda>sw. Inr (render_meter_v8 sw)) (self, uniform_world)) = Some 30 \<and>
        meter_fps (feed 30 render_meter (self, uniform_world)) = Some 30"
    using scenario_v8 [of self] scenario_v12 [of self] by blast
  have none: "feed 0 tick sw = Inr sw" by simp
  from v8r v8d v12r v12d below closes positive none thirty show ?thesis
    by (intro conjI) blast+
qed

theorem rate_meters_follow_tick_witness:
  "render_window (fst (render_meter_v8 (idle_gui\<lparr>frame_count := 29\<rparr>,
       \<lparr>clock = (\<lambda>n. 1), reads = 0, stdout = []\<rparr>))) =
     \<lparr>count = 0, window_start = 1, rate = 30\<rparr> \<and>
   render_window (fst (render_meter_v8 (idle_gui\<lparr>frame_count := 29, fps := 25\<rparr>,
       \<lparr>clock = (\<lambda>n. 1 / 2), reads = 0, stdout = []\<rparr>))) =
     \<lparr>count = 30, window_start = 0, rate = 25\<rparr> \<and>
   (\<exists>self' wd'. render_meter (idle_gui\<lparr>frame_count := 29\<rparr>,
        \<lparr>clock = (\<lambda>n. 1), reads = 0, stdout = []\<rparr>) = Inr (self', wd') \<and>
      render_window self' = \<lparr>count = 0, window_start = 1, rate = 30\<rparr> \<and>
      detection_window self' = detection_window idle_gui) \<and>
   meter_fps (feed 30 render_meter (idle_gui, uniform_world)) = Some 30"
  using rate_meters_follow_tick
    [of 1 "\<lparr>clock = (\<lambda>n. 1), reads = 0, stdout = []\<rparr>" 1 1 "idle_gui\<lparr>frame_count := 29\<rparr>"]
    rate_meters_follow_tick
    [of "1 / 2" "\<lparr>clock = (\<lambda>n. 1 / 2), reads = 0, stdout = []\<rparr>" "1 / 2" "1 / 2"
        "idle_gui\<lparr>frame_count := 29, fps := 25\<rparr>"]
    rate_meters_follow_tick
    [of 1 "\<lparr>clock = (\<lambda>n. 1), reads = 0, stdout = []\<rparr>" 1 1 idle_gui]
  by (simp add: idle_gui_def render_window_def detection_window_def tick_spec_def)

subsection \<open>The detection cache\<close>

lemma render_meter_keeps_cache:
  assumes "clock wd (reads wd) - last_time self \<ge> 1 \<longrightarrow> clock wd (Suc (reads wd)) \<noteq> last_time self"
  shows "\<exists>self' wd'. render_meter (self, wd) = Inr (self', wd') \<and>
     current_detections self' = current_detections self"
  using assms by (simp add: render_meter_def time_time_def Let_def)

text \<open>
  Claim C5. On a skip frame \<open>update_frame\<close> raises nothing and draws what the cache
  holds: the empty list when nothing was ever stored (\<open>current_detections\<close> is
  \<open>None\<close>), the stored list as it is otherwise; the cache itself is left as it
  was. (The clock is assumed not to make the render meter divide by zero.)
\<close>

theorem cache_read_on_skip_frame:
  assumes "running self" and "skip_frames self \<noteq> 0"
    and "frame_count self mod skip_frames self \<noteq> 0"
    and "clock wd (reads wd) - last_time self \<ge> 1 \<longrightarrow> clock wd (Suc (reads wd)) \<noteq> last_time self"
  shows "\<exists>self' wd' out. update_frame cv (True, frame) (self, wd) = Inr (self', wd', Some out) \<and>
     \<not> detected out \<and>
     drawn out = (case current_detections self of None \<Rightarrow> [] | Some ds \<Rightarrow> ds) \<and>
     (current_detections self = None \<longrightarrow> drawn out = []) \<and>
     current_detections self' = current_detections self"
proof -
  have cached: "cached_detections self = (case current_detections self of None \<Rightarrow> [] | Some ds \<Rightarrow> ds)"
    by (simp add: cached_detections_def split: option.splits)
  from render_meter_keeps_cache [OF assms(4)] obtain self' wd' where
    m: "render_meter (self, wd) = Inr (self', wd')" and
    same: "current_detections self' = current_detections self"
    by blast
  from assms(1-3) m same cached show ?thesis
    by (simp add: update_frame_def split: option.splits)
qed

theorem cache_read_on_skip_frame_witness:
  "(\<exists>self' wd' out.
      update_frame plain_cv (True, frame_1280)
        (idle_gui\<lparr>frame_count := 1\<rparr>, \<lparr>clock = (\<lambda>n. 1 / 2), reads = 0, stdout = []\<rparr>) =
        Inr (self', wd', Some out) \<and>
      \<not> detected out \<and> drawn out = [] \<and> current_detections self' = None)"
  using cache_read_on_skip_frame
    [of "idle_gui\<lparr>frame_count := 1\<rparr>" "\<lparr>clock = (\<lambda>n. 1 / 2), reads = 0, stdout = []\<rparr>"
        plain_cv frame_1280]
  by (simp add: idle_gui_def)

subsection \<open>Stopping the session\<close>

text \<open>
  Claim C9, as the code has it. The first \<open>on_quit\<close> of a session with a capture and
  a live window clears \<open>running\<close>, calls \<open>release\<close> on the capture once and destroys
  the window, without an exception. Nothing guards a second call: it calls
  \<open>release\<close> again and fails with \<open>TclError\<close> on the destroyed window.
\<close>

theorem on_quit_once_then_fails:
  assumes "cap self = Some c" and "\<not> destroyed (root self)"
  shows "\<exists>self1. on_quit self = (self1, None) \<and> \<not> running self1 \<and>
           cap self1 = Some (c\<lparr>release_calls := Suc (release_calls c)\<rparr>) \<and>
           destroyed (root self1) \<and>
           (\<exists>self2 e. on_quit self1 = (self2, Some e) \<and> kind e = TclError \<and>
              \<not> running self2 \<and>
              cap self2 = Some (c\<lparr>release_calls := Suc (Suc (release_calls c))\<rparr>))"
  using assms by (simp add: on_quit_def Let_def)

theorem on_quit_once_then_fails_witness:
  "cap idle_gui = Some \<lparr>release_calls = 0\<rparr> \<and> \<not> destroyed (root idle_gui) \<and>
   snd (on_quit idle_gui) = None \<and> \<not> running (fst (on_quit idle_gui)) \<and>
   cap (fst (on_quit idle_gui)) = Some \<lparr>release_calls = 1\<rparr> \<and>
   destroyed (root (fst (on_quit idle_gui)))"
  using on_quit_once_then_fails [of idle_gui "\<lparr>release_calls = 0\<rparr>"]
  by (auto simp: idle_gui_def)

text \<open>
  Claim C9 as stated fails: after two calls of \<open>on_quit\<close> the capture has been
  released twice and the second call has raised \<open>TclError\<close>.
\<close>

theorem on_quit_twice_releases_twice:
  "map_option release_calls (cap (fst (on_quit (fst (on_quit idle_gui))))) = Some 2 \<and>
   map_option kind (snd (on_quit (fst (on_quit idle_gui)))) = Some TclError"
  by (simp add: on_quit_def idle_gui_def Let_def)

section \<open>Properties of the web application\<close>

lemma selected_model_allowed: "selected_model req \<in> ALLOWED_MODELS"
  by (simp add: selected_model_def Let_def ALLOWED_MODELS_def split: option.splits)

lemma selected_model_fallback:
  "form req ''model'' = Some m \<Longrightarrow> m \<notin> ALLOWED_MODELS \<Longrightarrow> selected_model req = ''yolov12l-face.pt''"
  by (simp add: selected_model_def)

lemma selected_model_default_form:
  "selected_model (req\<lparr>form := (form req)(''model'' \<mapsto> ''yolov12l-face.pt'')\<rparr>) = ''yolov12l-face.pt''"
  by (simp add: selected_model_def ALLOWED_MODELS_def)

lemma detect_image_fallback:
  assumes "form req ''model'' = Some m" and "m \<notin> ALLOWED_MODELS"
  shows "detect_image env cache req =
     detect_image env cache (req\<lparr>form := (form req)(''model'' \<mapsto> ''yolov12l-face.pt'')\<rparr>)"
  unfolding detect_image_def selected_model_default_form selected_model_fallback [OF assms]
  by simp

lemma constructor_no_ValueError:
  "YOLOv12FaceDetector y p = Inl e \<Longrightarrow> kind e \<noteq> ValueError"
  by (auto simp: YOLOv12FaceDetector_def split: sum.splits if_splits)

text \<open>The part of get_detector after the allow-list check.\<close>

lemma get_detector_allowed:
  assumes "secure_filename env name \<in> ALLOWED_MODELS"
  shows "get_detector env cache name =
    (case cache (secure_filename env name) of
           Some d \<Rightarrow> Inr (d, cache)
         | None \<Rightarrow>
             (case
                (case resolve env (path_join (MODELS_DIR env) (secure_filename env name)) of
                   Inl e \<Rightarrow> Inl e
                 | Inr final_path \<Rightarrow>
                     (case resolve env (MODELS_DIR env) of
                        Inl e \<Rightarrow> Inl e
                      | Inr safe_root \<Rightarrow>
                          if \<not> startswith final_path safe_root
                          then Inl (PyExn ValueError ''Invalid model path (Symlink violation)'')
                          else Inr final_path)) of
                Inl e \<Rightarrow> Inl (PyExn FileNotFoundError (''Model path error: '' @ msg e))
              | Inr final_path \<Rightarrow>
                  if \<not> path_exists env final_path
                  then Inl (PyExn FileNotFoundError (''Model not found: '' @ final_path))
                  else
                    (case YOLOv12FaceDetector (YOLO env) final_path of
                       Inl e \<Rightarrow> Inl e
                     | Inr d \<Rightarrow> Inr (d, cache(secure_filename env name \<mapsto> d)))))"
  using assms by (simp add: get_detector_def Let_def split: option.splits)

lemma get_detector_ValueError:
  assumes "get_detector env cache name = Inl e" and "kind e = ValueError"
  shows "secure_filename env name \<notin> ALLOWED_MODELS"
proof
  assume ok: "secure_filename env name \<in> ALLOWED_MODELS"
  show False
  proof (cases "cache (secure_filename env name)")
    case (Some d)
    with assms(1) ok show False by (simp add: get_detector_allowed)
  next
    case None
    let ?r = "(case resolve env (path_join (MODELS_DIR env) (secure_filename env name)) of
                   Inl e \<Rightarrow> Inl e
                 | Inr final_path \<Rightarrow>
                     (case resolve env (MODELS_DIR env) of
                        Inl e \<Rightarrow> Inl e
                      | Inr safe_root \<Rightarrow>
                          if \<not> startswith final_path safe_root
                          then Inl (PyExn ValueError ''Invalid model path (Symlink violation)'')
                          else Inr final_path))"
    show False
    proof (cases ?r)
      case (Inl e1)
      with assms None ok show False by (auto simp: get_detector_allowed)
    next
      case (Inr final_path)
      show False
      proof (cases "path_exists env final_path")
        case False
        with assms None ok Inr show False by (auto simp: get_detector_allowed)
      next
        case True
        with assms(1) None ok Inr
        have "YOLOv12FaceDetector (YOLO env) final_path = Inl e"
          by (simp add: get_detector_allowed split: sum.splits)
        from constructor_no_ValueError [OF this] assms(2) show False by simp
      qed
    qed
  qed
qed

lemma get_detector_returns_cached:
  assumes "get_detector env cache name = Inr (d, cache')"
  shows "secure_filename env name \<in> ALLOWED_MODELS \<and> cache' (secure_filename env name) = Some d"
proof -
  have ok: "secure_filename env name \<in> ALLOWED_MODELS"
    using assms by (simp add: get_detector_def Let_def split: if_splits)
  show ?thesis
  proof (cases "cache (secure_filename env name)")
    case (Some d0)
    with assms ok show ?thesis by (simp add: get_detector_allowed)
  next
    case None
    let ?r = "(case resolve env (path_join (MODELS_DIR env) (secure_filename env name)) of
                   Inl e \<Rightarrow> Inl e
                 | Inr final_path \<Rightarrow>
                     (case resolve env (MODELS_DIR env) of
                        Inl e \<Rightarrow> Inl e
                      | Inr safe_root \<Rightarrow>
                          if \<not> startswith final_path safe_root
                          then Inl (PyExn ValueError ''Invalid model path (Symlink violation)'')
                          else Inr final_path))"
    show ?thesis
    proof (cases ?r)
      case (Inl e1)
      with assms None ok show ?thesis by (simp add: get_detector_allowed)
    next
      case (Inr final_path)
      with assms None ok show ?thesis
        by (auto simp: get_detector_allowed split: sum.splits if_splits)
    qed
  qed
qed

text \<open>
  Claim C10. The model name \<open>detect_image\<close> hands to \<open>get_detector\<close> is always one of
  the four allowed names: a requested name outside the list is replaced by
  \<open>yolov12l-face.pt\<close>, the request is answered exactly as if it had asked for that
  model, and once the file checks have passed the answer is the one built with the
  default model's detector. \<open>get_detector\<close> raises \<open>ValueError\<close> only when the
  sanitised name is outside the list; as \<open>secure_filename\<close> leaves the allowed names
  as they are, only for names outside the list, and never for the name the handler
  selected. A detector it returns is the cache entry of an allowed name.
\<close>

theorem invalid_model_falls_back:
  "selected_model req \<in> ALLOWED_MODELS \<and>
   (form req ''model'' = Some m \<and> m \<notin> ALLOWED_MODELS \<longrightarrow>
      selected_model req = ''yolov12l-face.pt'' \<and>
      detect_image env cache req =
        detect_image env cache (req\<lparr>form := (form req)(''model'' \<mapsto> ''yolov12l-face.pt'')\<rparr>) \<and>
      (files req ''file'' = Some file \<and> filename file \<noteq> [] \<and> allowed_file (filename file) \<and>
       is_image (filename file) = Inr True \<longrightarrow>
         detect_image env cache req =
           (case get_detector env cache ''yolov12l-face.pt'' of
              Inl e \<Rightarrow>
                ((ErrorJson ''Internal server error during image detection'', 500), cache)
            | Inr (det, cache1) \<Rightarrow>
                (case respond env det file of
                   Inl e \<Rightarrow>
                     ((ErrorJson ''Internal server error during image detection'', 500), cache1)
                 | Inr answer \<Rightarrow> ((SuccessJson answer, 200), cache1))))) \<and>
   (get_detector env cache name = Inl e \<and> kind e = ValueError \<longrightarrow>
      secure_filename env name \<notin> ALLOWED_MODELS) \<and>
   ((\<forall>n \<in> ALLOWED_MODELS. secure_filename env n = n) \<longrightarrow>
      (get_detector env cache name = Inl e \<and> kind e = ValueError \<longrightarrow> name \<notin> ALLOWED_MODELS) \<and>
      (\<forall>e'. get_detector env cache (selected_model req) = Inl e' \<longrightarrow> kind e' \<noteq> ValueError)) \<and>
   (get_detector env cache name = Inr (d, cache') \<longrightarrow>
      secure_filename env name \<in> ALLOWED_MODELS \<and> cache' (secure_filename env name) = Some d)"
proof -
  have allowed: "selected_model req \<in> ALLOWED_MODELS"
    by (rule selected_model_allowed)
  have fallback: "form req ''model'' = Some m \<and> m \<notin> ALLOWED_MODELS \<longrightarrow>
      selected_model req = ''yolov12l-face.pt'' \<and>
      detect_image env cache req =
        detect_image env cache (req\<lparr>form := (form req)(''model'' \<mapsto> ''yolov12l-face.pt'')\<rparr>) \<and>
      (files req ''file'' = Some file \<and> filename file \<noteq> [] \<and> allowed_file (filename file) \<and>
       is_image (filename file) = Inr True \<longrightarrow>
         detect_image env cache req =
           (case get_detector env cache ''yolov12l-face.pt'' of
              Inl e \<Rightarrow>
                ((ErrorJson ''Internal server error during image detection'', 500), cache)
            | Inr (det, cache1) \<Rightarrow>
                (case respond env det file of
                   Inl e \<Rightarrow>
                     ((ErrorJson ''Internal server error during image detection'', 500), cache1)
                 | Inr answer \<Rightarrow> ((SuccessJson answer, 200), cache1))))"
  proof (intro impI conjI; elim conjE)
    assume m: "form req ''model'' = Some m" "m \<notin> ALLOWED_MODELS"
    show "selected_model req = ''yolov12l-face.pt''"
      by (rule selected_model_fallback [OF m])
    show "detect_image env cache req =
        detect_image env cache (req\<lparr>form := (form req)(''model'' \<mapsto> ''yolov12l-face.pt'')\<rparr>)"
      by (rule detect_image_fallback [OF m])
  next
    assume m: "form req ''model'' = Some m" "m \<notin> ALLOWED_MODELS"
      and f: "files req ''file'' = Some file" "filename file \<noteq> []"
        "allowed_file (filename file)" "is_image (filename file) = Inr True"
    show "detect_image env cache req =
           (case get_detector env cache ''yolov12l-face.pt'' of
              Inl e \<Rightarrow>
                ((ErrorJson ''Internal server error during image detection'', 500), cache)
            | Inr (det, cache1) \<Rightarrow>
                (case respond env det file of
                   Inl e \<Rightarrow>
                     ((ErrorJson ''Internal server error during image detection'', 500), cache1)
                 | Inr answer \<Rightarrow> ((SuccessJson answer, 200), cache1)))"
      unfolding detect_image_def selected_model_fallback [OF m] using f by simp
  qed
  have value_error: "get_detector env cache name = Inl e \<and> kind e = ValueError \<longrightarrow>
      secure_filename env name \<notin> ALLOWED_MODELS"
    using get_detector_ValueError [of env cache name e] by (intro impI; elim conjE)
  have fixed: "(\<forall>n \<in> ALLOWED_MODELS. secure_filename env n = n) \<longrightarrow>
      (get_detector env cache name = Inl e \<and> kind e = ValueError \<longrightarrow> name \<notin> ALLOWED_MODELS) \<and>
      (\<forall>e'. get_detector env cache (selected_model req) = Inl e' \<longrightarrow> kind e' \<noteq> ValueError)"
  proof (intro impI conjI allI; (elim conjE)?)
    assume fixes_allowed: "\<forall>n \<in> ALLOWED_MODELS. secure_filename env n = n"
      and "get_detector env cache name = Inl e" "kind e = ValueError"
    from get_detector_ValueError [OF this(2,3)] fixes_allowed
    show "name \<notin> ALLOWED_MODELS" by auto
  next
    fix e'
    assume fixes_allowed: "\<forall>n \<in> ALLOWED_MODELS. secure_filename env n = n"
      and raised: "get_detector env cache (selected_model req) = Inl e'"
    show "kind e' \<noteq> ValueError"
    proof
      assume "kind e' = ValueError"
      from get_detector_ValueError [OF raised this] fixes_allowed allowed
      show False by auto
    qed
  qed
  have cached: "get_detector env cache name = Inr (d, cache') \<longrightarrow>
      secure_filename env name \<in> ALLOWED_MODELS \<and> cache' (secure_filename env name) = Some d"
    using get_detector_returns_cached [of env cache name d cache'] by (intro impI)
  show ?thesis
    by (intro conjI allowed fallback value_error fixed cached)
qed

theorem invalid_model_falls_back_witness:
  "form example_request ''model'' = Some ''evil.pt'' \<and> ''evil.pt'' \<notin> ALLOWED_MODELS \<and>
   selected_model example_request = ''yolov12l-face.pt'' \<and>
   detect_image example_env Map.empty example_request =
     ((SuccessJson ''ok'', 200), [''yolov12l-face.pt'' \<mapsto> one_box_detector])"
proof -
  have bad: "''evil.pt'' \<notin> ALLOWED_MODELS" by (simp add: ALLOWED_MODELS_def)
  have frm: "form example_request ''model'' = Some ''evil.pt''"
    by (simp add: example_request_def)
  have upl: "files example_request ''file'' = Some \<lparr>filename = ''Face.JPG'', content = []\<rparr>"
    by (simp add: example_request_def)
  have nonempty: "filename \<lparr>filename = ''Face.JPG'', content = []\<rparr> \<noteq> []" by simp
  have ok1: "allowed_file (filename \<lparr>filename = ''Face.JPG'', content = []\<rparr>)"
    unfolding upload.simps by code_simp
  have ok2: "is_image (filename \<lparr>filename = ''Face.JPG'', content = []\<rparr>) = Inr True"
    unfolding upload.simps by code_simp
  have gd: "get_detector example_env Map.empty ''yolov12l-face.pt'' =
      Inr (one_box_detector, [''yolov12l-face.pt'' \<mapsto> one_box_detector])"
    by (simp add: get_detector_def example_env_def ALLOWED_MODELS_def path_join_def
        startswith_def YOLOv12FaceDetector_def)
  have rsp: "respond example_env one_box_detector \<lparr>filename = ''Face.JPG'', content = []\<rparr> = Inr ''ok''"
    by (simp add: example_env_def)
  note T = invalid_model_falls_back
    [of example_request "''evil.pt''" example_env Map.empty
        "\<lparr>filename = ''Face.JPG'', content = []\<rparr>"]
  note fb = T [THEN conjunct2, THEN conjunct1, THEN mp, OF conjI [OF frm bad]]
  note sel = fb [THEN conjunct1]
  note ans = fb [THEN conjunct2, THEN conjunct2, THEN mp,
      OF conjI [OF upl conjI [OF nonempty conjI [OF ok1 ok2]]]]
  have "detect_image example_env Map.empty example_request =
     ((SuccessJson ''ok'', 200), [''yolov12l-face.pt'' \<mapsto> one_box_detector])"
    unfolding ans gd by (simp add: rsp)
  with frm bad sel show ?thesis by (intro conjI)
qed

end
